theory Spec2Isabelle
  imports Complex_Main "HOL-Library.Word"
begin

unbundle bit_operations_syntax

section \<open>The scene controller of the rooftop modelling interface\<close>

text \<open>
  This theory embeds the parts of \<^verbatim>\<open>src/babylon/SceneController.ts\<close> that own the
  parametric building model and the pointer-driven editing logic, and proves properties
  of them.

  Conventions of the embedding.
  \<^item> A JavaScript \<^verbatim>\<open>number\<close> is modelled as a \<^typ>\<open>real\<close>: \<^verbatim>\<open>Math.min\<close>,
    \<^verbatim>\<open>Math.max\<close> and the comparisons are exact on both sides, while \<open>+\<close>, \<open>-\<close>,
    \<open>*\<close> and \<open>/\<close> are the exact operations, without IEEE-754 rounding, \<^verbatim>\<open>NaN\<close> or
    infinities.
  \<^item> A \<^verbatim>\<open>Mesh\<close> is a mutable object that several fields of the controller may
    reference at once (\<^verbatim>\<open>selectedMesh\<close> and \<^verbatim>\<open>draggingBuilding\<close>), so building roots
    live in a store indexed by references, and the fields hold references.
  \<^item> The optional callbacks (\<^verbatim>\<open>onSlopeChange?\<close>, ...) are modelled by a flag saying
    whether a listener is installed and by the trace of the calls made to the listeners.
  \<^item> The wall, roof and handle meshes are disposed and rebuilt from the metadata of the
    selected building by \<^verbatim>\<open>rebuildMesh\<close> and \<^verbatim>\<open>createHandles\<close>; they carry no
    information of their own and are not part of the modelled state.
\<close>

subsection \<open>Data model\<close>

text \<open>\<^verbatim>\<open>types.ts\<close>: \<^verbatim>\<open>enum RoofType { Flat, Gable }\<close>.\<close>

datatype RoofType = Flat | Gable

record Vector3 =
  vx :: real
  vy :: real
  vz :: real

text \<open>
  The \<^verbatim>\<open>metadata\<close> object of a building root, as \<^verbatim>\<open>createBuilding\<close> writes it;
  \<^verbatim>\<open>height\<close> is the eaves height.
\<close>

record Metadata =
  roofType :: RoofType
  width :: real
  depth :: real
  height :: real
  slope :: real

record Mesh =
  position :: Vector3
  rotation_y :: real
  metadata :: Metadata

type_synonym ref = nat

text \<open>
  The \<^verbatim>\<open>handleType\<close> strings that occur in the source (the declared type of
  \<^verbatim>\<open>draggingHandleType\<close>, and \<^verbatim>\<open>'guide'\<close>), and the metadata of a handle mesh.
  Guide meshes have no \<^verbatim>\<open>index\<close>.
\<close>

datatype HandleType =
  corner | roof | edge_width | edge_depth | rotate_handle | height_eaves | height_ridge | guide

record HandleMetadata =
  handleType :: HandleType
  index :: "nat option"

datatype ViewportName = none | plan | iso | elevation

text \<open>The calls made to the listeners, in order.\<close>

datatype Call =
  SlopeChange real
  | DimensionsChange real real real real
  | ActiveViewportChange ViewportName

record Controller =
  heap :: "ref \<Rightarrow> Mesh"
  selectedMesh :: "ref option"
  isDragging :: bool
  dragTarget :: "HandleMetadata option"
  draggingBuilding :: "ref option"
  draggingHandleType :: "HandleType option"
  dragOrigin :: "Vector3 option"
  elevationZoom :: real
  elevationOrthoTop :: real
  elevationOrthoBottom :: real
  elevationOrthoLeft :: real
  elevationOrthoRight :: real
  elevationTarget :: Vector3
  activeViewport :: ViewportName
  isAppDragging :: bool
  isoAttached :: bool
  elevationAttached :: bool
  onSlopeChange :: bool
  onDimensionsChange :: bool
  onActiveViewportChange :: bool
  calls :: "Call list"

abbreviation meta :: "Controller \<Rightarrow> ref \<Rightarrow> Metadata" where
  "meta s r \<equiv> metadata (heap s r)"

text \<open>Writing the metadata of the mesh behind a reference.\<close>

definition setMetadata :: "ref \<Rightarrow> Metadata \<Rightarrow> Controller \<Rightarrow> Controller" where
  "setMetadata r md s = s\<lparr>heap := (heap s)(r := (heap s r)\<lparr>metadata := md\<rparr>)\<rparr>"

subsection \<open>Notifications\<close>

text \<open>
  \<^verbatim>\<open>notifyDimensions\<close>: calls \<^verbatim>\<open>onDimensionsChange\<close> with the metadata of the selected
  building when there is a selection and a listener.
\<close>

definition notifyDimensions :: "Controller \<Rightarrow> Controller" where
  "notifyDimensions s =
     (case selectedMesh s of
        None \<Rightarrow> s
      | Some r \<Rightarrow>
          if onDimensionsChange s
          then s\<lparr>calls := calls s @
                 [DimensionsChange (width (meta s r)) (depth (meta s r))
                    (height (meta s r)) (slope (meta s r))]\<rparr>
          else s)"

subsection \<open>The commands on the selected building\<close>

text \<open>
  \<^verbatim>\<open>setSlope\<close>: only for a selected Gable building; the stored slope is
  \<^verbatim>\<open>Math.max(0.5, Math.min(30, slope))\<close>, the listener receives the argument.
\<close>

definition setSlope :: "real \<Rightarrow> Controller \<Rightarrow> Controller" where
  "setSlope slope_arg s =
     (case selectedMesh s of
        None \<Rightarrow> s
      | Some r \<Rightarrow>
          if roofType (meta s r) = Gable
          then let limitedSlope = max 0.5 (min 30 slope_arg);
                   s1 = setMetadata r ((meta s r)\<lparr>slope := limitedSlope\<rparr>) s
               in if onSlopeChange s1
                  then s1\<lparr>calls := calls s1 @ [SlopeChange slope_arg]\<rparr>
                  else s1
          else s)"

text \<open>
  \<^verbatim>\<open>setEavesHeight\<close>: the top of the roof stays where it is; the eaves may rise to
  half a metre below it.
\<close>

definition setEavesHeight :: "real \<Rightarrow> Controller \<Rightarrow> Controller" where
  "setEavesHeight newHeight s =
     (case selectedMesh s of
        None \<Rightarrow> s
      | Some r \<Rightarrow>
          let oldHeight = height (meta s r);
              oldSlope = slope (meta s r);
              top = oldHeight + oldSlope;
              maxAllowedHeight = top - 0.5;
              clampedHeight = min newHeight maxAllowedHeight;
              newSlope = top - clampedHeight
          in notifyDimensions
               (setMetadata r ((meta s r)\<lparr>height := clampedHeight, slope := newSlope\<rparr>) s))"

text \<open>\<^verbatim>\<open>setRidgeHeight\<close>: the eaves stay; the slope is at least half a metre.\<close>

definition setRidgeHeight :: "real \<Rightarrow> Controller \<Rightarrow> Controller" where
  "setRidgeHeight newTop s =
     (case selectedMesh s of
        None \<Rightarrow> s
      | Some r \<Rightarrow>
          let height0 = height (meta s r);
              newSlope0 = newTop - height0;
              newSlope = (if newSlope0 < 0.5 then 0.5 else newSlope0)
          in notifyDimensions (setMetadata r ((meta s r)\<lparr>slope := newSlope\<rparr>) s))"

subsection \<open>A controller as constructed, and a building as created\<close>

text \<open>
  The metadata \<^verbatim>\<open>createBuilding\<close> gives a new building, and a root mesh at a
  position with these metadata.
\<close>

definition defaultMetadata :: "RoofType \<Rightarrow> Metadata" where
  "defaultMetadata t =
     \<lparr>roofType = t, width = 10, depth = 6,
      height = (if t = Flat then 5 else 4),
      slope = (if t = Flat then 25 else 2)\<rparr>"

definition newBuilding :: "Vector3 \<Rightarrow> RoofType \<Rightarrow> Mesh" where
  "newBuilding pos t =
     \<lparr>position = pos\<lparr>vy := 0\<rparr>, rotation_y = 0, metadata = defaultMetadata t\<rparr>"

definition Zero :: Vector3 where
  "Zero = \<lparr>vx = 0, vy = 0, vz = 0\<rparr>"

text \<open>
  The field initialisers and \<^verbatim>\<open>createScene\<close>, for an engine whose render size has the
  aspect ratio \<open>ratio\<close>: no selection, no drag, zoom 1, the elevation camera with ortho
  size 30, the free camera attached, no listener installed. Every reference of the
  store denotes some mesh; none is reachable from the fields.
\<close>

definition newController :: "real \<Rightarrow> Controller" where
  "newController ratio =
     \<lparr>heap = (\<lambda>_. newBuilding Zero Gable),
      selectedMesh = None,
      isDragging = False,
      dragTarget = None,
      draggingBuilding = None,
      draggingHandleType = None,
      dragOrigin = None,
      elevationZoom = 1.0,
      elevationOrthoTop = 30,
      elevationOrthoBottom = - 30,
      elevationOrthoLeft = - 30 * 0.35 * ratio,
      elevationOrthoRight = 30 * 0.35 * ratio,
      elevationTarget = Zero,
      activeViewport = none,
      isAppDragging = False,
      isoAttached = True,
      elevationAttached = False,
      onSlopeChange = False,
      onDimensionsChange = False,
      onActiveViewportChange = False,
      calls = []\<rparr>"

text \<open>A controller whose selection is a freshly created building of the given roof type.\<close>

definition withSelected :: "RoofType \<Rightarrow> Controller" where
  "withSelected t =
     (newController 2)\<lparr>heap := (\<lambda>_. newBuilding Zero t), selectedMesh := Some 0,
        onSlopeChange := True, onDimensionsChange := True\<rparr>"

subsection \<open>World and local coordinates of a building\<close>

text \<open>
  A building root has no parent, unit scaling, and only its yaw \<^verbatim>\<open>rotation.y\<close> set, so
  its world matrix is a rotation about the vertical axis followed by the translation to
  \<^verbatim>\<open>position\<close>. Babylon.js multiplies row vectors from the left, and its
  \<^verbatim>\<open>Matrix.RotationY\<close> has the rows \<open>(c, 0, -s)\<close>, \<open>(0, 1, 0)\<close>, \<open>(s, 0, c)\<close>. A matrix
  of this shape is kept as the cosine, the sine and the translation.
\<close>

record Matrix =
  mcos :: real
  msin :: real
  mtranslation :: Vector3

definition add :: "Vector3 \<Rightarrow> Vector3 \<Rightarrow> Vector3" where
  "add a b = \<lparr>vx = vx a + vx b, vy = vy a + vy b, vz = vz a + vz b\<rparr>"

definition subtract :: "Vector3 \<Rightarrow> Vector3 \<Rightarrow> Vector3" where
  "subtract a b = \<lparr>vx = vx a - vx b, vy = vy a - vy b, vz = vz a - vz b\<rparr>"

definition getWorldMatrix :: "Mesh \<Rightarrow> Matrix" where
  "getWorldMatrix m =
     \<lparr>mcos = cos (rotation_y m), msin = sin (rotation_y m), mtranslation = position m\<rparr>"

text \<open>\<^verbatim>\<open>Vector3.TransformNormal\<close>: the rotation alone.\<close>

definition TransformNormal :: "Vector3 \<Rightarrow> Matrix \<Rightarrow> Vector3" where
  "TransformNormal v M =
     \<lparr>vx = vx v * mcos M + vz v * msin M,
      vy = vy v,
      vz = - (vx v) * msin M + vz v * mcos M\<rparr>"

text \<open>\<^verbatim>\<open>Vector3.TransformCoordinates\<close>: the rotation, then the translation.\<close>

definition TransformCoordinates :: "Vector3 \<Rightarrow> Matrix \<Rightarrow> Vector3" where
  "TransformCoordinates v M = add (TransformNormal v M) (mtranslation M)"

text \<open>
  \<^verbatim>\<open>Matrix.invert\<close> on a matrix of this shape: the opposite rotation, and the
  translation that takes the old origin back.
\<close>

definition invert :: "Matrix \<Rightarrow> Matrix" where
  "invert M =
     (let R' = \<lparr>mcos = mcos M, msin = - msin M, mtranslation = Zero\<rparr>
      in R'\<lparr>mtranslation := subtract Zero (TransformNormal (mtranslation M) R')\<rparr>)"

subsection \<open>Resizing by a corner or edge handle\<close>

definition MIN_SIZE :: real where
  "MIN_SIZE = 1"

text \<open>
  The block of \<^verbatim>\<open>handleResize\<close> that moves the edges of the local bounding box
  \<open>(minX, maxX, minZ, maxZ)\<close>. The source assigns the four variables in this order, each
  assignment reading the current values of the others.
\<close>

definition updateBoundaries ::
  "HandleType \<Rightarrow> nat option \<Rightarrow> Vector3 \<Rightarrow> real \<times> real \<times> real \<times> real
     \<Rightarrow> real \<times> real \<times> real \<times> real" where
  "updateBoundaries hType idx localPickPoint b =
     (case b of (minX0, maxX0, minZ0, maxZ0) \<Rightarrow>
        if hType = corner then
          (let minX = (if idx = Some 0 \<or> idx = Some 3
                       then min (vx localPickPoint) (maxX0 - MIN_SIZE) else minX0);
               maxX = (if idx = Some 1 \<or> idx = Some 2
                       then max (vx localPickPoint) (minX + MIN_SIZE) else maxX0);
               minZ = (if idx = Some 0 \<or> idx = Some 1
                       then min (vz localPickPoint) (maxZ0 - MIN_SIZE) else minZ0);
               maxZ = (if idx = Some 2 \<or> idx = Some 3
                       then max (vz localPickPoint) (minZ + MIN_SIZE) else maxZ0)
           in (minX, maxX, minZ, maxZ))
        else if hType = edge_width then
          (if idx = Some 0
           then (min (vx localPickPoint) (maxX0 - MIN_SIZE), maxX0, minZ0, maxZ0)
           else (minX0, max (vx localPickPoint) (minX0 + MIN_SIZE), minZ0, maxZ0))
        else if hType = edge_depth then
          (if idx = Some 0
           then (minX0, maxX0, min (vz localPickPoint) (maxZ0 - MIN_SIZE), maxZ0)
           else (minX0, maxX0, minZ0, max (vz localPickPoint) (minZ0 + MIN_SIZE)))
        else (minX0, maxX0, minZ0, maxZ0))"

text \<open>The bounding box a resize starts from: the current one, centred at the local origin.\<close>

definition currentBoundaries :: "Metadata \<Rightarrow> real \<times> real \<times> real \<times> real" where
  "currentBoundaries md =
     (let halfWidth = width md / 2; halfDepth = depth md / 2
      in (- halfWidth, halfWidth, - halfDepth, halfDepth))"

text \<open>
  \<^verbatim>\<open>handleResize\<close>. It returns at once without a selection or a drag target. The last
  step of the source replaces \<^verbatim>\<open>dragTarget\<close> by the regenerated handle of the same
  \<^verbatim>\<open>handleType\<close> and \<^verbatim>\<open>index\<close> when there is one, which leaves the metadata kept
  here as they are.
\<close>

definition handleResize :: "Vector3 \<Rightarrow> Controller \<Rightarrow> Controller" where
  "handleResize pickPoint s =
     (case selectedMesh s of
        None \<Rightarrow> s
      | Some r \<Rightarrow>
         (case dragTarget s of
            None \<Rightarrow> s
          | Some target \<Rightarrow>
             (let mesh = heap s r;
                  inverseWorldMatrix = invert (getWorldMatrix mesh);
                  localPickPoint = TransformCoordinates pickPoint inverseWorldMatrix
              in case updateBoundaries (handleType target) (index target) localPickPoint
                        (currentBoundaries (metadata mesh)) of
                   (minX, maxX, minZ, maxZ) \<Rightarrow>
                     (let newWidth = maxX - minX;
                          newDepth = maxZ - minZ;
                          localShift = \<lparr>vx = (minX + maxX) / 2, vy = 0, vz = (minZ + maxZ) / 2\<rparr>;
                          worldShift = TransformNormal localShift (getWorldMatrix mesh);
                          mesh' = mesh\<lparr>metadata := (metadata mesh)\<lparr>width := newWidth,
                                                                      depth := newDepth\<rparr>,
                                       position := add (position mesh) worldShift\<rparr>
                      in notifyDimensions (s\<lparr>heap := (heap s)(r := mesh')\<rparr>)))))"

text \<open>
  A sequence of resize moves, each with the handle that is the drag target at that
  moment and the drag point of the move.
\<close>

fun resizeMoves :: "Controller \<Rightarrow> (HandleMetadata \<times> Vector3) list \<Rightarrow> Controller" where
  "resizeMoves s [] = s"
| "resizeMoves s ((target, pickPoint) # ms) =
     resizeMoves (handleResize pickPoint (s\<lparr>dragTarget := Some target\<rparr>)) ms"

subsection \<open>Routing the pointer to a viewport\<close>

text \<open>
  What \<^verbatim>\<open>handlePointer\<close> and \<^verbatim>\<open>refreshInput\<close> read of the canvas and the engine: the
  size of the canvas in CSS pixels and the render size.
\<close>

record Canvas =
  clientWidth :: real
  clientHeight :: real
  renderWidth :: real
  renderHeight :: real

record PointerEvent =
  offsetX :: real
  offsetY :: real
  deltaY :: real

definition isPlanView :: "real \<Rightarrow> Canvas \<Rightarrow> bool" where
  "isPlanView x canvas = (x < clientWidth canvas * 0.65)"

definition isElevationView :: "real \<Rightarrow> real \<Rightarrow> Canvas \<Rightarrow> bool" where
  "isElevationView x y canvas = (\<not> isPlanView x canvas \<and> y > clientHeight canvas * 0.5)"

text \<open>
  The local \<^verbatim>\<open>newViewport\<close>, computed the same way in both functions: \<^verbatim>\<open>'iso'\<close>
  unless one of the two tests holds.
\<close>

definition newViewport :: "real \<Rightarrow> real \<Rightarrow> Canvas \<Rightarrow> ViewportName" where
  "newViewport x y canvas =
     (if isPlanView x canvas then plan
      else if isElevationView x y canvas then elevation
      else iso)"

definition notifyActiveViewport :: "ViewportName \<Rightarrow> Controller \<Rightarrow> Controller" where
  "notifyActiveViewport v s =
     (if onActiveViewportChange s then s\<lparr>calls := calls s @ [ActiveViewportChange v]\<rparr> else s)"

text \<open>Detach both free cameras, then attach the one of the viewport, if it has one.\<close>

definition attachActive :: "ViewportName \<Rightarrow> Controller \<Rightarrow> Controller" where
  "attachActive v s = s\<lparr>isoAttached := (v = iso), elevationAttached := (v = elevation)\<rparr>"

text \<open>
  The input switching of \<^verbatim>\<open>handlePointer\<close>: nothing while the application drags a
  guide, nothing when the viewport is the active one already.
\<close>

definition switchInput :: "ViewportName \<Rightarrow> Controller \<Rightarrow> Controller" where
  "switchInput v s =
     (if \<not> isAppDragging s \<and> activeViewport s \<noteq> v
      then attachActive v (notifyActiveViewport v (s\<lparr>activeViewport := v\<rparr>))
      else s)"

text \<open>
  \<^verbatim>\<open>refreshInput\<close>, at the pointer position \<open>(x, y)\<close> the scene holds: unconditional,
  except that it returns at once without a canvas.
\<close>

definition refreshInput :: "Canvas option \<Rightarrow> real \<Rightarrow> real \<Rightarrow> Controller \<Rightarrow> Controller" where
  "refreshInput canvas x y s =
     (case canvas of
        None \<Rightarrow> s
      | Some c \<Rightarrow>
          notifyActiveViewport (newViewport x y c)
            (attachActive (newViewport x y c) (s\<lparr>activeViewport := newViewport x y c\<rparr>)))"

subsection \<open>Zooming the elevation view\<close>

text \<open>
  The wheel block of \<^verbatim>\<open>handlePointer\<close>, reached when the pointer is in the elevation
  view. The ratio is the exact quotient of the render sizes; a render height of 0 is
  outside the model.
\<close>

definition zoomElevation :: "real \<Rightarrow> Canvas \<Rightarrow> Controller \<Rightarrow> Controller" where
  "zoomElevation delta canvas s =
     (let zoomFactor = 0.001;
          zoom1 = elevationZoom s + delta * zoomFactor;
          zoom2 = max 0.1 (min zoom1 5);
          orthoSize = 30 * zoom2;
          ratio = renderWidth canvas / renderHeight canvas
      in s\<lparr>elevationZoom := zoom2,
            elevationOrthoTop := orthoSize,
            elevationOrthoBottom := - orthoSize,
            elevationOrthoLeft := - orthoSize * 0.35 * ratio,
            elevationOrthoRight := orthoSize * 0.35 * ratio\<rparr>)"

text \<open>
  \<^verbatim>\<open>handlePointer\<close> on an event of type \<^verbatim>\<open>POINTERWHEEL\<close>: the input switching, then the
  zoom when the pointer is in the elevation view. Otherwise the function only picks, and
  none of its branches for the other event types is taken.
\<close>

definition handlePointerWheel :: "Canvas option \<Rightarrow> PointerEvent \<Rightarrow> Controller \<Rightarrow> Controller" where
  "handlePointerWheel canvas evt s =
     (case canvas of
        None \<Rightarrow> s
      | Some c \<Rightarrow>
          (let s1 = switchInput (newViewport (offsetX evt) (offsetY evt) c) s
           in if isElevationView (offsetX evt) (offsetY evt) c
              then zoomElevation (deltaY evt) c s1
              else s1))"

fun scrollEvents :: "Controller \<Rightarrow> (Canvas option \<times> PointerEvent) list \<Rightarrow> Controller" where
  "scrollEvents s [] = s"
| "scrollEvents s ((canvas, evt) # es) = scrollEvents (handlePointerWheel canvas evt s) es"

subsection \<open>Picking\<close>

text \<open>What the two pick predicates of \<^verbatim>\<open>handlePointer\<close> read of a mesh and of a camera.\<close>

datatype MeshType = handle | building | preview

record AbstractMesh =
  isVisible :: bool
  isPickable :: bool
  layerMask :: "32 word"
  metadata_type :: "MeshType option"
  metadata_handleType :: "HandleType option"

datatype Camera = planCamera | isoCamera | elevationCamera

definition MASK_PLAN :: "32 word" where
  "MASK_PLAN = 0x1"

definition MASK_ISO :: "32 word" where
  "MASK_ISO = 0x2"

definition MASK_ELEVATION :: "32 word" where
  "MASK_ELEVATION = 0x4"

fun cameraLayerMask :: "Camera \<Rightarrow> 32 word" where
  "cameraLayerMask planCamera = MASK_PLAN"
| "cameraLayerMask isoCamera = MASK_ISO"
| "cameraLayerMask elevationCamera = MASK_ELEVATION"


definition priorityPredicate :: "Camera \<Rightarrow> AbstractMesh \<Rightarrow> bool" where
  "priorityPredicate camera mesh =
     (if camera = planCamera \<and> metadata_handleType mesh = Some guide then False
      else (isVisible mesh \<or> metadata_handleType mesh = Some guide)
           \<and> isPickable mesh
           \<and> metadata_type mesh = Some handle
           \<and> (layerMask mesh AND cameraLayerMask camera) \<noteq> 0)"

definition fallbackPredicate :: "Camera \<Rightarrow> AbstractMesh \<Rightarrow> bool" where
  "fallbackPredicate camera mesh = ((layerMask mesh AND cameraLayerMask camera) \<noteq> 0)"

text \<open>
  Babylon.js's \<^verbatim>\<open>scene.pickWithRay(ray, predicate)\<close>: of the meshes the predicate
  accepts and the ray meets, the one at the least distance, the earlier mesh of the scene
  on a tie. The ray is given by what it meets: the meshes in scene order, each with the
  distance of the intersection.
\<close>

fun nearest :: "('a \<times> real) list \<Rightarrow> ('a \<times> real) option" where
  "nearest [] = None"
| "nearest ((m, d) # rest) =
     (case nearest rest of
        None \<Rightarrow> Some (m, d)
      | Some (m', d') \<Rightarrow> if d' < d then Some (m', d') else Some (m, d))"

definition pickWithRay ::
  "(AbstractMesh \<times> real) list \<Rightarrow> (AbstractMesh \<Rightarrow> bool) \<Rightarrow> (AbstractMesh \<times> real) option" where
  "pickWithRay ray predicate = nearest (filter (\<lambda>(m, d). predicate m) ray)"

text \<open>The two passes of \<^verbatim>\<open>handlePointer\<close>: handles first, everything visible if none is hit.\<close>

definition pick :: "Camera \<Rightarrow> (AbstractMesh \<times> real) list \<Rightarrow> (AbstractMesh \<times> real) option" where
  "pick camera ray =
     (case pickWithRay ray (priorityPredicate camera) of
        Some hit \<Rightarrow> Some hit
      | None \<Rightarrow> pickWithRay ray (fallbackPredicate camera))"

subsection \<open>Moving the pointer during a drag\<close>

text \<open>
  \<^verbatim>\<open>Math.atan2(y, x)\<close> on reals: the angle of the point \<open>(x, y)\<close> in \<open>(-\<pi>, \<pi>]\<close>, and
  0 at the origin.
\<close>

definition atan2 :: "real \<Rightarrow> real \<Rightarrow> real" where
  "atan2 y x =
     (if 0 < x then arctan (y / x)
      else if x < 0 then (if 0 \<le> y then arctan (y / x) + pi else arctan (y / x) - pi)
      else if 0 < y then pi / 2
      else if y < 0 then - (pi / 2)
      else 0)"

text \<open>\<^verbatim>\<open>updateElevationCamera\<close>: the elevation camera looks at the selected building.\<close>

definition updateElevationCamera :: "Controller \<Rightarrow> Controller" where
  "updateElevationCamera s =
     s\<lparr>elevationTarget :=
         (case selectedMesh s of None \<Rightarrow> Zero | Some r \<Rightarrow> position (heap s r))\<rparr>"

text \<open>
  The drag block of \<^verbatim>\<open>handlePointer\<close> on \<^verbatim>\<open>POINTERMOVE\<close> while \<^verbatim>\<open>isDragging\<close>, from
  the point \<open>hitPoint\<close> where the pointer ray meets the drag plane (none when it does
  not): the drag origin is added, then the handle drags are served, then the relocation
  of a building.
\<close>

definition dragMove :: "Vector3 option \<Rightarrow> Controller \<Rightarrow> Controller" where
  "dragMove hitPoint s =
     (let dragPoint =
            (case hitPoint of
               None \<Rightarrow> None
             | Some p \<Rightarrow> (case dragOrigin s of None \<Rightarrow> Some p | Some off \<Rightarrow> Some (add p off)))
      in case dragPoint of
           None \<Rightarrow> s
         | Some p \<Rightarrow>
            (case dragTarget s of
               Some target \<Rightarrow>
                 if draggingHandleType s = Some corner
                    \<or> draggingHandleType s = Some edge_width
                    \<or> draggingHandleType s = Some edge_depth
                 then notifyDimensions (updateElevationCamera (handleResize p s))
                 else if draggingHandleType s = Some rotate_handle
                 then (case selectedMesh s of
                         Some r \<Rightarrow>
                           (let dx = vx p - vx (position (heap s r));
                                dz = vz p - vz (position (heap s r));
                                angle = atan2 dx dz
                            in s\<lparr>heap := (heap s)(r := (heap s r)\<lparr>rotation_y := angle\<rparr>)\<rparr>)
                       | None \<Rightarrow> s)
                 else if draggingHandleType s = Some height_eaves
                 then setEavesHeight (vy p) s
                 else if draggingHandleType s = Some height_ridge
                 then setRidgeHeight (vy p) s
                 else s
             | None \<Rightarrow>
                (case draggingBuilding s of
                   Some b \<Rightarrow>
                     updateElevationCamera
                       (s\<lparr>heap := (heap s)(b := (heap s b)\<lparr>position :=
                             (position (heap s b))\<lparr>vx := vx p, vz := vz p\<rparr>\<rparr>)\<rparr>)
                 | None \<Rightarrow> s)))"

subsection \<open>Example inputs\<close>

text \<open>
  Two resize moves on a fresh building: the corner handle 0 dragged far beyond the
  opposite corner, then the right edge dragged far to the left.
\<close>

definition exampleMoves :: "(HandleMetadata \<times> Vector3) list" where
  "exampleMoves =
     [(\<lparr>handleType = corner, index = Some 0\<rparr>, \<lparr>vx = 100, vy = 0, vz = 100\<rparr>),
      (\<lparr>handleType = edge_width, index = Some 1\<rparr>, \<lparr>vx = - 100, vy = 0, vz = 0\<rparr>)]"

text \<open>A fresh Gable building whose corner handle 0 is being dragged.\<close>

definition draggingCorner :: Controller where
  "draggingCorner =
     (withSelected Gable)\<lparr>isDragging := True,
        dragTarget := Some \<lparr>handleType = corner, index = Some 0\<rparr>,
        draggingHandleType := Some corner\<rparr>"

text \<open>A fresh Gable building whose rotate handle is being dragged, picked at its centre.\<close>

definition rotating :: Controller where
  "rotating =
     (withSelected Gable)\<lparr>isDragging := True,
        dragTarget := Some \<lparr>handleType = rotate_handle, index = Some 0\<rparr>,
        draggingHandleType := Some rotate_handle,
        dragOrigin := Some Zero\<rparr>"

text \<open>A canvas of 100 by 100 pixels, and a wheel event in its lower right quarter.\<close>

definition squareCanvas :: Canvas where
  "squareCanvas =
     \<lparr>clientWidth = 100, clientHeight = 100, renderWidth = 100, renderHeight = 100\<rparr>"

definition wheelInElevation :: "real \<Rightarrow> PointerEvent" where
  "wheelInElevation d = \<lparr>offsetX = 80, offsetY = 75, deltaY = d\<rparr>"

definition exampleScroll :: "(Canvas option \<times> PointerEvent) list" where
  "exampleScroll =
     [(Some squareCanvas, wheelInElevation 1000),
      (Some squareCanvas, wheelInElevation 9000),
      (Some squareCanvas, wheelInElevation (- 20000))]"

text \<open>
  A corner handle as \<^verbatim>\<open>createHandles\<close> makes it, the roof of the selected building,
  the collider of a guide, and a ray from the plan camera that meets the roof before
  the handle.
\<close>

definition cornerHandleMesh :: AbstractMesh where
  "cornerHandleMesh =
     \<lparr>isVisible = True, isPickable = True, layerMask = MASK_PLAN,
      metadata_type = Some handle, metadata_handleType = Some corner\<rparr>"

definition roofMesh :: AbstractMesh where
  "roofMesh =
     \<lparr>isVisible = True, isPickable = True, layerMask = MASK_PLAN OR MASK_ISO OR MASK_ELEVATION,
      metadata_type = Some building, metadata_handleType = None\<rparr>"

definition guideCollider :: AbstractMesh where
  "guideCollider =
     \<lparr>isVisible = True, isPickable = True, layerMask = MASK_ELEVATION,
      metadata_type = Some handle, metadata_handleType = Some guide\<rparr>"

definition exampleRay :: "(AbstractMesh \<times> real) list" where
  "exampleRay = [(roofMesh, 5), (cornerHandleMesh, 8)]"



section \<open>Properties\<close>

subsection \<open>Helper facts\<close>

lemma meta_setMetadata: "meta (setMetadata r md s) r = md"
  by (simp add: setMetadata_def)

lemma heap_notifyDimensions: "heap (notifyDimensions s) = heap s"
  by (simp add: notifyDimensions_def split: option.splits)

lemma meta_setEavesHeight:
  assumes "selectedMesh s = Some r"
  shows "meta (setEavesHeight h s) r =
           (meta s r)\<lparr>height := min h (height (meta s r) + slope (meta s r) - 0.5),
                      slope := height (meta s r) + slope (meta s r)
                               - min h (height (meta s r) + slope (meta s r) - 0.5)\<rparr>"
  using assms
  by (simp add: setEavesHeight_def Let_def heap_notifyDimensions meta_setMetadata)

lemma meta_setRidgeHeight:
  assumes "selectedMesh s = Some r"
  shows "meta (setRidgeHeight t s) r =
           (meta s r)\<lparr>slope := max 0.5 (t - height (meta s r))\<rparr>"
  using assms
  by (simp add: setRidgeHeight_def Let_def heap_notifyDimensions meta_setMetadata max_def)

subsection \<open>The height setters\<close>

text \<open>
  Claim C1. For a selected Gable building, with \<open>ridgeHeight = eavesHeight + slope\<close>:
  \<^verbatim>\<open>setEavesHeight(h)\<close> sets the eaves height to \<open>min h (ridgeHeight - 0.5)\<close> and the
  slope to the ridge height minus the new eaves height, so the ridge height is unchanged;
  \<^verbatim>\<open>setRidgeHeight(t)\<close> sets the slope to \<open>max 0.5 (t - eavesHeight)\<close> and leaves the
  eaves height unchanged. After either call the slope is at least 0.5 and the eaves
  height is at most the ridge height minus 0.5, for every argument.
\<close>

theorem setters_clamp_gable:
  assumes sel: "selectedMesh s = Some r"
    and gable: "roofType (meta s r) = Gable"
  shows "height (meta (setEavesHeight h s) r)
           = min h (height (meta s r) + slope (meta s r) - 0.5)
       \<and> slope (meta (setEavesHeight h s) r)
           = height (meta s r) + slope (meta s r) - height (meta (setEavesHeight h s) r)
       \<and> height (meta (setEavesHeight h s) r) + slope (meta (setEavesHeight h s) r)
           = height (meta s r) + slope (meta s r)
       \<and> slope (meta (setRidgeHeight t s) r) = max 0.5 (t - height (meta s r))
       \<and> height (meta (setRidgeHeight t s) r) = height (meta s r)
       \<and> 0.5 \<le> slope (meta (setEavesHeight h s) r)
       \<and> height (meta (setEavesHeight h s) r)
           \<le> height (meta (setEavesHeight h s) r) + slope (meta (setEavesHeight h s) r) - 0.5
       \<and> 0.5 \<le> slope (meta (setRidgeHeight t s) r)
       \<and> height (meta (setRidgeHeight t s) r)
           \<le> height (meta (setRidgeHeight t s) r) + slope (meta (setRidgeHeight t s) r) - 0.5"
proof -
  let ?top = "height (meta s r) + slope (meta s r)"
  have eh: "height (meta (setEavesHeight h s) r) = min h (?top - 0.5)"
    and es: "slope (meta (setEavesHeight h s) r) = ?top - min h (?top - 0.5)"
    by (simp_all add: meta_setEavesHeight [OF sel])
  have rs: "slope (meta (setRidgeHeight t s) r) = max 0.5 (t - height (meta s r))"
    and rh: "height (meta (setRidgeHeight t s) r) = height (meta s r)"
    by (simp_all add: meta_setRidgeHeight [OF sel])
  have "min h (?top - 0.5) \<le> ?top - 0.5"
    by (rule min.cobounded2)
  then have e_low: "0.5 \<le> slope (meta (setEavesHeight h s) r)"
    unfolding es by linarith
  have r_low: "0.5 \<le> slope (meta (setRidgeHeight t s) r)"
    unfolding rs by (rule max.cobounded1)
  show ?thesis
    using e_low r_low by (simp add: eh es rs rh)
qed

theorem setters_clamp_gable_witness:
  "selectedMesh (withSelected Gable) = Some 0
   \<and> roofType (meta (withSelected Gable) 0) = Gable
   \<and> height (meta (setEavesHeight 10 (withSelected Gable)) 0) = 5.5
   \<and> slope (meta (setEavesHeight 10 (withSelected Gable)) 0) = 0.5
   \<and> slope (meta (setRidgeHeight (- 7) (withSelected Gable)) 0) = 0.5
   \<and> height (meta (setRidgeHeight (- 7) (withSelected Gable)) 0) = 4"
proof -
  have sel: "selectedMesh (withSelected Gable) = Some 0"
    by (simp add: withSelected_def)
  have gable: "roofType (meta (withSelected Gable) 0) = Gable"
    by (simp add: withSelected_def newBuilding_def defaultMetadata_def)
  have vals: "height (meta (withSelected Gable) 0) = 4" "slope (meta (withSelected Gable) 0) = 2"
    by (simp_all add: withSelected_def newBuilding_def defaultMetadata_def)
  show ?thesis
    using setters_clamp_gable [OF sel gable, of 10 "- 7"] sel gable vals by simp
qed

text \<open>
  Claim C2, as amended. The claim says that both setters keep \<open>eavesHeight \<ge> 1\<close> and
  \<open>eavesHeight + slope \<le> 30\<close> for every argument. The setters hold no such bound:
  \<^verbatim>\<open>setEavesHeight\<close> clamps from above only and \<^verbatim>\<open>setRidgeHeight\<close> from below
  only. What holds for a selected building with
  \<open>eavesHeight \<ge> 1\<close>, \<open>slope \<ge> 0.5\<close> and \<open>eavesHeight + slope \<le> 30\<close>:
  \<^verbatim>\<open>setEavesHeight(h)\<close> keeps \<open>eavesHeight + slope \<le> 30\<close> for every \<open>h\<close>, and keeps
  \<open>eavesHeight \<ge> 1\<close> exactly when \<open>h \<ge> 1\<close>; \<^verbatim>\<open>setRidgeHeight(t)\<close> keeps
  \<open>eavesHeight \<ge> 1\<close> for every \<open>t\<close>, and keeps \<open>eavesHeight + slope \<le> 30\<close> exactly when
  \<open>t \<le> 30\<close>.
\<close>

theorem setters_absolute_bounds:
  assumes sel: "selectedMesh s = Some r"
    and eaves: "1 \<le> height (meta s r)"
    and slope: "0.5 \<le> slope (meta s r)"
    and ridge: "height (meta s r) + slope (meta s r) \<le> 30"
  shows "(1 \<le> height (meta (setEavesHeight h s) r) \<longleftrightarrow> 1 \<le> h)
       \<and> height (meta (setEavesHeight h s) r) + slope (meta (setEavesHeight h s) r) \<le> 30
       \<and> 1 \<le> height (meta (setRidgeHeight t s) r)
       \<and> (height (meta (setRidgeHeight t s) r) + slope (meta (setRidgeHeight t s) r) \<le> 30
            \<longleftrightarrow> t \<le> 30)"
  using eaves slope ridge
  by (auto simp add: meta_setEavesHeight [OF sel] meta_setRidgeHeight [OF sel] min_def max_def)

theorem setters_absolute_bounds_witness:
  "selectedMesh (withSelected Gable) = Some 0
   \<and> 1 \<le> height (meta (withSelected Gable) 0)
   \<and> 0.5 \<le> slope (meta (withSelected Gable) 0)
   \<and> height (meta (withSelected Gable) 0) + slope (meta (withSelected Gable) 0) \<le> 30
   \<and> 1 \<le> height (meta (setEavesHeight 3 (withSelected Gable)) 0)
   \<and> height (meta (setRidgeHeight 12 (withSelected Gable)) 0)
        + slope (meta (setRidgeHeight 12 (withSelected Gable)) 0) \<le> 30"
proof -
  have sel: "selectedMesh (withSelected Gable) = Some 0"
    by (simp add: withSelected_def)
  have vals: "meta (withSelected Gable) 0 = defaultMetadata Gable"
    by (simp add: withSelected_def newBuilding_def)
  have eaves: "1 \<le> height (meta (withSelected Gable) 0)"
    and slope: "0.5 \<le> slope (meta (withSelected Gable) 0)"
    and ridge: "height (meta (withSelected Gable) 0) + slope (meta (withSelected Gable) 0) \<le> 30"
    by (simp_all add: vals defaultMetadata_def)
  show ?thesis
    using setters_absolute_bounds [OF sel eaves slope ridge, of 3 12] sel eaves slope ridge
    by simp
qed

text \<open>
  The claim as stated fails on a fresh Gable building (eaves 4, slope 2), which satisfies
  both invariants: \<^verbatim>\<open>setEavesHeight(-5)\<close> leaves the eaves at \<open>-5\<close>, and
  \<^verbatim>\<open>setRidgeHeight(100)\<close> leaves the ridge at 100.
\<close>

theorem setters_absolute_bounds_counterexample:
  "selectedMesh (withSelected Gable) = Some 0
   \<and> 1 \<le> height (meta (withSelected Gable) 0)
   \<and> height (meta (withSelected Gable) 0) + slope (meta (withSelected Gable) 0) \<le> 30
   \<and> height (meta (setEavesHeight (- 5) (withSelected Gable)) 0) < 1
   \<and> 30 < height (meta (setRidgeHeight 100 (withSelected Gable)) 0)
            + slope (meta (setRidgeHeight 100 (withSelected Gable)) 0)"
proof -
  have sel: "selectedMesh (withSelected Gable) = Some 0"
    by (simp add: withSelected_def)
  have vals: "meta (withSelected Gable) 0 = defaultMetadata Gable"
    by (simp add: withSelected_def newBuilding_def)
  show ?thesis
    by (simp add: meta_setEavesHeight [OF sel] meta_setRidgeHeight [OF sel] sel vals
        defaultMetadata_def)
qed

subsection \<open>Commands without a selection, and the slope command\<close>

text \<open>
  Claim C8. Without a selection \<^verbatim>\<open>setSlope\<close>, \<^verbatim>\<open>setEavesHeight\<close> and
  \<^verbatim>\<open>setRidgeHeight\<close> return the controller unchanged, for every argument.
  \<^verbatim>\<open>setSlope\<close> also changes nothing when the selected building is not a Gable one;
  on a Gable building it stores the argument clamped to \<open>[0.5, 30]\<close>, so
  \<^verbatim>\<open>setSlope(40)\<close> stores 30.
\<close>

theorem setters_without_selection:
  "(selectedMesh s = None \<longrightarrow>
      setSlope v s = s \<and> setEavesHeight v s = s \<and> setRidgeHeight v s = s)
   \<and> (\<forall>r. selectedMesh s = Some r \<and> roofType (meta s r) \<noteq> Gable \<longrightarrow> setSlope v s = s)
   \<and> (\<forall>r. selectedMesh s = Some r \<and> roofType (meta s r) = Gable \<longrightarrow>
        slope (meta (setSlope v s) r) = max 0.5 (min 30 v)
        \<and> 0.5 \<le> slope (meta (setSlope v s) r) \<and> slope (meta (setSlope v s) r) \<le> 30
        \<and> (v = 40 \<longrightarrow> slope (meta (setSlope v s) r) = 30))"
proof (intro conjI allI impI)
  assume "selectedMesh s = None"
  then show "setSlope v s = s" "setEavesHeight v s = s" "setRidgeHeight v s = s"
    by (simp_all add: setSlope_def setEavesHeight_def setRidgeHeight_def)
next
  fix r
  assume "selectedMesh s = Some r \<and> roofType (meta s r) \<noteq> Gable"
  then show "setSlope v s = s"
    by (simp add: setSlope_def)
next
  fix r
  assume a: "selectedMesh s = Some r \<and> roofType (meta s r) = Gable"
  then have stored: "slope (meta (setSlope v s) r) = max 0.5 (min 30 v)"
    by (simp add: setSlope_def Let_def meta_setMetadata setMetadata_def)
  then show "slope (meta (setSlope v s) r) = max 0.5 (min 30 v)" .
  show "0.5 \<le> slope (meta (setSlope v s) r)"
    unfolding stored by (rule max.cobounded1)
  show "slope (meta (setSlope v s) r) \<le> 30"
    unfolding stored by simp
  show "slope (meta (setSlope v s) r) = 30" if "v = 40"
    using that stored by simp
qed

theorem setters_without_selection_witness:
  "selectedMesh (newController 2) = None
   \<and> setSlope 40 (newController 2) = newController 2
   \<and> setEavesHeight 40 (newController 2) = newController 2
   \<and> setRidgeHeight 40 (newController 2) = newController 2
   \<and> selectedMesh (withSelected Flat) = Some 0
   \<and> roofType (meta (withSelected Flat) 0) \<noteq> Gable
   \<and> setSlope 40 (withSelected Flat) = withSelected Flat
   \<and> selectedMesh (withSelected Gable) = Some 0
   \<and> roofType (meta (withSelected Gable) 0) = Gable
   \<and> slope (meta (setSlope 40 (withSelected Gable)) 0) = 30"
proof -
  have none: "selectedMesh (newController 2) = None"
    by (simp add: newController_def)
  have flat: "selectedMesh (withSelected Flat) = Some 0"
    "roofType (meta (withSelected Flat) 0) \<noteq> Gable"
    by (simp_all add: withSelected_def newBuilding_def defaultMetadata_def)
  have gable: "selectedMesh (withSelected Gable) = Some 0"
    "roofType (meta (withSelected Gable) 0) = Gable"
    by (simp_all add: withSelected_def newBuilding_def defaultMetadata_def)
  show ?thesis
    using setters_without_selection [of "newController 2" 40]
      setters_without_selection [of "withSelected Flat" 40]
      setters_without_selection [of "withSelected Gable" 40]
      none flat gable
    by simp
qed

text \<open>
  Claim C10. When \<^verbatim>\<open>setSlope(v)\<close> is called on a selected Gable building with \<open>v\<close>
  outside \<open>[0.5, 30]\<close> and a slope listener installed, the stored slope is
  \<open>min 30 (max 0.5 v)\<close>, while the listener is called with \<open>v\<close> itself: the reported
  slope differs from the stored one.
\<close>

theorem setSlope_reports_unclamped:
  assumes sel: "selectedMesh s = Some r"
    and gable: "roofType (meta s r) = Gable"
    and listener: "onSlopeChange s"
    and outside: "v < 0.5 \<or> 30 < v"
  shows "slope (meta (setSlope v s) r) = min 30 (max 0.5 v)
       \<and> calls (setSlope v s) = calls s @ [SlopeChange v]
       \<and> slope (meta (setSlope v s) r) \<noteq> v"
  using assms
  by (auto simp add: setSlope_def Let_def setMetadata_def)

theorem setSlope_reports_unclamped_witness:
  "selectedMesh (withSelected Gable) = Some 0
   \<and> roofType (meta (withSelected Gable) 0) = Gable
   \<and> onSlopeChange (withSelected Gable)
   \<and> ((40::real) < 0.5 \<or> (30::real) < 40)
   \<and> slope (meta (setSlope 40 (withSelected Gable)) 0) = 30
   \<and> calls (setSlope 40 (withSelected Gable)) = [SlopeChange 40]"
proof -
  have sel: "selectedMesh (withSelected Gable) = Some 0"
    and gable: "roofType (meta (withSelected Gable) 0) = Gable"
    and listener: "onSlopeChange (withSelected Gable)"
    and log: "calls (withSelected Gable) = []"
    by (simp_all add: withSelected_def newController_def newBuilding_def defaultMetadata_def)
  have outside: "(40::real) < 0.5 \<or> (30::real) < 40"
    by simp
  show ?thesis
    using setSlope_reports_unclamped [OF sel gable listener outside] sel gable listener log
    by simp
qed

subsection \<open>Resizing\<close>

lemma selectedMesh_notifyDimensions: "selectedMesh (notifyDimensions s) = selectedMesh s"
  by (simp add: notifyDimensions_def split: option.splits)

lemma selectedMesh_handleResize: "selectedMesh (handleResize p s) = selectedMesh s"
  by (simp add: handleResize_def Let_def selectedMesh_notifyDimensions
      split: option.splits prod.splits)

text \<open>The world matrix and its inverse undo each other.\<close>

lemma invert_getWorldMatrix:
  "TransformCoordinates (TransformCoordinates v (getWorldMatrix m)) (invert (getWorldMatrix m)) = v"
proof -
  have "cos (rotation_y m) * cos (rotation_y m) + sin (rotation_y m) * sin (rotation_y m) = 1"
    using sin_cos_squared_add2 [of "rotation_y m"] by (simp add: power2_eq_square)
  then have "a * (cos (rotation_y m) * cos (rotation_y m))
           + a * (sin (rotation_y m) * sin (rotation_y m)) = a" for a
    by (metis distrib_left mult.right_neutral)
  then show ?thesis
    by (simp add: TransformCoordinates_def TransformNormal_def getWorldMatrix_def invert_def
        add_def subtract_def Zero_def Let_def algebra_simps)
qed

text \<open>
  After the edges moved, each pair is at least one metre apart, and no edge has passed
  the place of the opposite one.
\<close>

lemma updateBoundaries_ordered:
  assumes "updateBoundaries hType idx p (minX0, maxX0, minZ0, maxZ0) = (minX, maxX, minZ, maxZ)"
    and "minX0 + 1 \<le> maxX0" and "minZ0 + 1 \<le> maxZ0"
  shows "minX + 1 \<le> maxX \<and> minZ + 1 \<le> maxZ \<and> minX \<le> maxX0 - 1 \<and> minX0 + 1 \<le> maxX
       \<and> minZ \<le> maxZ0 - 1 \<and> minZ0 + 1 \<le> maxZ"
  using assms
  by (auto simp add: updateBoundaries_def MIN_SIZE_def Let_def split: if_splits)

text \<open>What \<^verbatim>\<open>handleResize\<close> writes to the selected building.\<close>

lemma heap_handleResize:
  assumes "selectedMesh s = Some r" and "dragTarget s = Some target"
    and "updateBoundaries (handleType target) (index target)
           (TransformCoordinates pickPoint (invert (getWorldMatrix (heap s r))))
           (currentBoundaries (meta s r)) = (minX, maxX, minZ, maxZ)"
  shows "heap (handleResize pickPoint s) r =
          (heap s r)\<lparr>metadata := (meta s r)\<lparr>width := maxX - minX, depth := maxZ - minZ\<rparr>,
             position := add (position (heap s r))
                (TransformNormal \<lparr>vx = (minX + maxX) / 2, vy = 0, vz = (minZ + maxZ) / 2\<rparr>
                   (getWorldMatrix (heap s r)))\<rparr>"
  using assms
  by (simp add: handleResize_def Let_def heap_notifyDimensions)

lemma handleResize_min_size:
  assumes sel: "selectedMesh s = Some r"
    and w: "1 \<le> width (meta s r)" and d: "1 \<le> depth (meta s r)"
  shows "1 \<le> width (meta (handleResize p s) r) \<and> 1 \<le> depth (meta (handleResize p s) r)"
proof (cases "dragTarget s")
  case None
  with sel w d show ?thesis by (simp add: handleResize_def)
next
  case (Some target)
  obtain minX maxX minZ maxZ where b:
    "updateBoundaries (handleType target) (index target)
           (TransformCoordinates p (invert (getWorldMatrix (heap s r))))
           (currentBoundaries (meta s r)) = (minX, maxX, minZ, maxZ)"
    using prod_cases4 by blast
  have "minX + 1 \<le> maxX \<and> minZ + 1 \<le> maxZ"
    using updateBoundaries_ordered [OF b [unfolded currentBoundaries_def Let_def]] w d by simp
  then show ?thesis
    by (simp add: heap_handleResize [OF sel Some b])
qed

lemma resizeMoves_min_size:
  assumes "selectedMesh s = Some r" "1 \<le> width (meta s r)" "1 \<le> depth (meta s r)"
  shows "selectedMesh (resizeMoves s ms) = Some r
       \<and> 1 \<le> width (meta (resizeMoves s ms) r) \<and> 1 \<le> depth (meta (resizeMoves s ms) r)"
  using assms
proof (induction ms arbitrary: s)
  case Nil
  then show ?case by simp
next
  case (Cons m ms)
  obtain target p where m: "m = (target, p)" by (cases m)
  let ?s = "s\<lparr>dragTarget := Some target\<rparr>"
  have "selectedMesh ?s = Some r" "1 \<le> width (meta ?s r)" "1 \<le> depth (meta ?s r)"
    using Cons.prems by simp_all
  then have "selectedMesh (handleResize p ?s) = Some r"
     "1 \<le> width (meta (handleResize p ?s) r)" "1 \<le> depth (meta (handleResize p ?s) r)"
    using handleResize_min_size [of ?s r p] by (simp_all add: selectedMesh_handleResize)
  then show ?case using Cons.IH [of "handleResize p ?s"] m by simp
qed

text \<open>
  Claim C3. For a selected building of width and depth at least \<open>MIN_SIZE = 1\<close>, as
  every building is created, the width and the depth are at least \<open>MIN_SIZE\<close> after
  every sequence of corner, edge-width and edge-depth resize moves, whatever the drag
  points. In every state such a sequence reaches, a further move clamps each edge on its
  own: the new left and back edges stay at least \<open>MIN_SIZE\<close> below the new and the old
  right and front edges, and the other way round, so the edges never swap.
\<close>

theorem resize_keeps_min_size:
  assumes sel: "selectedMesh s = Some r"
    and w: "MIN_SIZE \<le> width (meta s r)" and d: "MIN_SIZE \<le> depth (meta s r)"
  shows "MIN_SIZE \<le> width (meta (resizeMoves s ms) r)
       \<and> MIN_SIZE \<le> depth (meta (resizeMoves s ms) r)
       \<and> (\<forall>hType idx p.
             case currentBoundaries (meta (resizeMoves s ms) r) of
               (minX0, maxX0, minZ0, maxZ0) \<Rightarrow>
                 (case updateBoundaries hType idx p (minX0, maxX0, minZ0, maxZ0) of
                    (minX, maxX, minZ, maxZ) \<Rightarrow>
                      minX \<le> maxX - MIN_SIZE \<and> minZ \<le> maxZ - MIN_SIZE
                      \<and> minX \<le> maxX0 - MIN_SIZE \<and> minZ \<le> maxZ0 - MIN_SIZE
                      \<and> minX0 + MIN_SIZE \<le> maxX \<and> minZ0 + MIN_SIZE \<le> maxZ))"
proof -
  let ?s = "resizeMoves s ms"
  have inv: "1 \<le> width (meta ?s r)" "1 \<le> depth (meta ?s r)"
    using resizeMoves_min_size [of s r ms] sel w d by (simp_all add: MIN_SIZE_def)
  have "\<And>hType idx p minX maxX minZ maxZ.
          updateBoundaries hType idx p (- (width (meta ?s r) / 2), width (meta ?s r) / 2,
              - (depth (meta ?s r) / 2), depth (meta ?s r) / 2) = (minX, maxX, minZ, maxZ)
          \<Longrightarrow> minX \<le> maxX - 1 \<and> minZ \<le> maxZ - 1
              \<and> minX \<le> width (meta ?s r) / 2 - 1 \<and> minZ \<le> depth (meta ?s r) / 2 - 1
              \<and> - (width (meta ?s r) / 2) + 1 \<le> maxX \<and> - (depth (meta ?s r) / 2) + 1 \<le> maxZ"
    subgoal premises prems for hType idx p minX maxX minZ maxZ
      using updateBoundaries_ordered [OF prems] inv by simp
    done
  then show ?thesis
    using inv by (simp add: currentBoundaries_def Let_def MIN_SIZE_def split: prod.splits)
qed

theorem resize_keeps_min_size_witness:
  "selectedMesh (withSelected Gable) = Some 0
   \<and> MIN_SIZE \<le> width (meta (withSelected Gable) 0)
   \<and> MIN_SIZE \<le> depth (meta (withSelected Gable) 0)
   \<and> MIN_SIZE \<le> width (meta (resizeMoves (withSelected Gable) exampleMoves) 0)
   \<and> MIN_SIZE \<le> depth (meta (resizeMoves (withSelected Gable) exampleMoves) 0)"
proof -
  have sel: "selectedMesh (withSelected Gable) = Some 0"
    by (simp add: withSelected_def)
  have w: "MIN_SIZE \<le> width (meta (withSelected Gable) 0)"
    by (simp add: withSelected_def newBuilding_def defaultMetadata_def MIN_SIZE_def)
  have d: "MIN_SIZE \<le> depth (meta (withSelected Gable) 0)"
    by (simp add: withSelected_def newBuilding_def defaultMetadata_def MIN_SIZE_def)
  show ?thesis
    using resize_keeps_min_size [OF sel w d, of exampleMoves] sel w d by simp
qed

text \<open>The two example moves shrink the fresh building to one metre by one metre.\<close>

lemma exampleMoves_result:
  "width (meta (resizeMoves (withSelected Gable) exampleMoves) 0) = 1"
  "depth (meta (resizeMoves (withSelected Gable) exampleMoves) 0) = 1"
  "position (heap (resizeMoves (withSelected Gable) exampleMoves) 0)
     = \<lparr>vx = 4.5, vy = 0, vz = 2.5\<rparr>"
  by (simp_all add: exampleMoves_def withSelected_def newController_def newBuilding_def
      defaultMetadata_def handleResize_def updateBoundaries_def currentBoundaries_def
      MIN_SIZE_def Let_def notifyDimensions_def getWorldMatrix_def invert_def
      TransformCoordinates_def TransformNormal_def add_def subtract_def Zero_def)

text \<open>
  Claim C4. On a selected building of width 10 and depth 6 (local bounds
  \<open>[-5, 5] \<times> [-3, 3]\<close>), dragging the corner handle 0 to the local point
  \<open>(x = -3, z = -1)\<close> gives the new width \<open>5 - (-3) = 8\<close> and the new depth
  \<open>3 - (-1) = 4\<close>. The position moves by the vector
  \<open>((minX + maxX) / 2, 0, (minZ + maxZ) / 2)\<close> rotated to world space, which puts the
  origin of the building at the world place of the centre of the new bounds.
\<close>

theorem corner_drag_scenario:
  assumes sel: "selectedMesh s = Some r"
    and target: "dragTarget s = Some \<lparr>handleType = corner, index = Some 0\<rparr>"
    and w: "width (meta s r) = 10" and d: "depth (meta s r) = 6"
    and lx: "vx (TransformCoordinates pickPoint (invert (getWorldMatrix (heap s r)))) = - 3"
    and lz: "vz (TransformCoordinates pickPoint (invert (getWorldMatrix (heap s r)))) = - 1"
  shows "width (meta (handleResize pickPoint s) r) = 5 - (- 3)
       \<and> width (meta (handleResize pickPoint s) r) = 8
       \<and> depth (meta (handleResize pickPoint s) r) = 3 - (- 1)
       \<and> depth (meta (handleResize pickPoint s) r) = 4
       \<and> position (heap (handleResize pickPoint s) r)
           = add (position (heap s r))
               (TransformNormal \<lparr>vx = (- 3 + 5) / 2, vy = 0, vz = (- 1 + 3) / 2\<rparr>
                  (getWorldMatrix (heap s r)))
       \<and> position (heap (handleResize pickPoint s) r)
           = TransformCoordinates \<lparr>vx = (- 3 + 5) / 2, vy = 0, vz = (- 1 + 3) / 2\<rparr>
               (getWorldMatrix (heap s r))"
proof -
  have b: "updateBoundaries (handleType \<lparr>handleType = corner, index = Some 0\<rparr>)
             (index \<lparr>handleType = corner, index = Some 0\<rparr>)
             (TransformCoordinates pickPoint (invert (getWorldMatrix (heap s r))))
             (currentBoundaries (meta s r)) = (- 3, 5, - 1, 3)"
    using w d lx lz
    by (simp add: updateBoundaries_def currentBoundaries_def MIN_SIZE_def Let_def)
  show ?thesis
    by (simp add: heap_handleResize [OF sel target b] TransformCoordinates_def
        TransformNormal_def getWorldMatrix_def add_def)
qed

theorem corner_drag_scenario_witness:
  "selectedMesh draggingCorner = Some 0
   \<and> dragTarget draggingCorner = Some \<lparr>handleType = corner, index = Some 0\<rparr>
   \<and> width (meta draggingCorner 0) = 10
   \<and> depth (meta draggingCorner 0) = 6
   \<and> width (meta (handleResize \<lparr>vx = - 3, vy = 0, vz = - 1\<rparr> draggingCorner) 0) = 8
   \<and> depth (meta (handleResize \<lparr>vx = - 3, vy = 0, vz = - 1\<rparr> draggingCorner) 0) = 4
   \<and> position (heap (handleResize \<lparr>vx = - 3, vy = 0, vz = - 1\<rparr> draggingCorner) 0)
       = \<lparr>vx = 1, vy = 0, vz = 1\<rparr>"
proof -
  let ?p = "\<lparr>vx = - 3, vy = 0, vz = - 1\<rparr>"
  have sel: "selectedMesh draggingCorner = Some 0"
    and target: "dragTarget draggingCorner = Some \<lparr>handleType = corner, index = Some 0\<rparr>"
    by (simp_all add: draggingCorner_def withSelected_def)
  have h: "heap draggingCorner 0 = newBuilding Zero Gable"
    by (simp add: draggingCorner_def withSelected_def)
  have w: "width (meta draggingCorner 0) = 10" and d: "depth (meta draggingCorner 0) = 6"
    by (simp_all add: h newBuilding_def defaultMetadata_def)
  have lx: "vx (TransformCoordinates ?p (invert (getWorldMatrix (heap draggingCorner 0)))) = - 3"
    and lz: "vz (TransformCoordinates ?p (invert (getWorldMatrix (heap draggingCorner 0)))) = - 1"
    by (simp_all add: h newBuilding_def getWorldMatrix_def invert_def
        TransformCoordinates_def TransformNormal_def add_def subtract_def Zero_def Let_def)
  show ?thesis
    using corner_drag_scenario [OF sel target w d lx lz] sel target w d
    by (simp add: h newBuilding_def getWorldMatrix_def TransformNormal_def add_def Zero_def)
qed

subsection \<open>Viewport routing\<close>

text \<open>
  Claim C6, as amended. Routing is a total function of the position on the canvas: a
  pointer with \<open>x < 0.65 \<cdot> width\<close> resolves to Plan; with \<open>x \<ge> 0.65 \<cdot> width\<close> and
  \<open>y \<le> 0.5 \<cdot> height\<close> to Iso; with \<open>x \<ge> 0.65 \<cdot> width\<close> and \<open>y > 0.5 \<cdot> height\<close> to
  Elevation. The boundary \<open>y = 0.5 \<cdot> height\<close> belongs to Iso, since both functions test
  \<^verbatim>\<open>y > clientHeight * 0.5\<close>. \<^verbatim>\<open>refreshInput\<close> makes the resolved viewport the
  active one, and so does \<^verbatim>\<open>handlePointer\<close> unless the application is dragging.
\<close>

theorem routing_total:
  "(x < 0.65 * clientWidth c \<longrightarrow> newViewport x y c = plan)
   \<and> (0.65 * clientWidth c \<le> x \<and> y \<le> 0.5 * clientHeight c \<longrightarrow> newViewport x y c = iso)
   \<and> (0.65 * clientWidth c \<le> x \<and> 0.5 * clientHeight c < y \<longrightarrow> newViewport x y c = elevation)
   \<and> activeViewport (refreshInput (Some c) x y s) = newViewport x y c
   \<and> (\<not> isAppDragging s \<longrightarrow>
        activeViewport (switchInput (newViewport x y c) s) = newViewport x y c)"
  by (auto simp add: newViewport_def isPlanView_def isElevationView_def refreshInput_def
      notifyActiveViewport_def attachActive_def switchInput_def)

theorem routing_total_witness:
  "newViewport 10 50 squareCanvas = plan
   \<and> newViewport 80 50 squareCanvas = iso
   \<and> newViewport 80 51 squareCanvas = elevation
   \<and> \<not> isAppDragging (newController 1)
   \<and> activeViewport (switchInput (newViewport 80 51 squareCanvas) (newController 1)) = elevation"
proof -
  have c: "clientWidth squareCanvas = 100" "clientHeight squareCanvas = 100"
    by (simp_all add: squareCanvas_def)
  have nd: "\<not> isAppDragging (newController 1)"
    by (simp add: newController_def)
  have a: "newViewport 10 50 squareCanvas = plan"
    using routing_total [of 10 squareCanvas 50 "newController 1"] c by simp
  have b: "newViewport 80 50 squareCanvas = iso"
    using routing_total [of 80 squareCanvas 50 "newController 1"] c by simp
  have d: "newViewport 80 51 squareCanvas = elevation"
    using routing_total [of 80 squareCanvas 51 "newController 1"] c by simp
  have e: "activeViewport (switchInput (newViewport 80 51 squareCanvas) (newController 1))
             = newViewport 80 51 squareCanvas"
    using routing_total [of 80 squareCanvas 51 "newController 1"] nd by simp
  show ?thesis
    using a b d e nd by simp
qed

text \<open>
  The claim as stated fails on the boundary: on a canvas of 100 by 100 pixels the
  pointer at \<open>(80, 50)\<close> has \<open>x \<ge> 0.65 \<cdot> width\<close> and \<open>y = 0.5 \<cdot> height\<close>, and resolves
  to Iso, not to Elevation.
\<close>

theorem routing_boundary_counterexample:
  "0.65 * clientWidth squareCanvas \<le> 80
   \<and> 50 = 0.5 * clientHeight squareCanvas
   \<and> newViewport 80 50 squareCanvas = iso
   \<and> newViewport 80 50 squareCanvas \<noteq> elevation
   \<and> activeViewport (refreshInput (Some squareCanvas) 80 50 (newController 1)) \<noteq> elevation"
  by (simp add: squareCanvas_def newViewport_def isPlanView_def isElevationView_def
      refreshInput_def notifyActiveViewport_def attachActive_def newController_def)

subsection \<open>Elevation zoom\<close>







text \<open>The example scroll runs into both ends of the range and stops at the lower one.\<close>

lemma exampleScroll_result:
  "elevationZoom (scrollEvents (newController 1) exampleScroll) = 0.1"
  by (simp add: exampleScroll_def wheelInElevation_def squareCanvas_def handlePointerWheel_def
      Let_def zoomElevation_def switchInput_def attachActive_def notifyActiveViewport_def
      newViewport_def isElevationView_def isPlanView_def newController_def)

subsection \<open>Picking\<close>








text \<open>
  On the example ray the plan camera picks the handle behind the roof, while the free
  camera, whose mask the handle does not share, picks the roof; the elevation camera
  picks a guide collider behind the roof.
\<close>

lemma exampleRay_picks:
  "pick planCamera exampleRay = Some (cornerHandleMesh, 8)"
  "pick isoCamera exampleRay = Some (roofMesh, 5)"
  "pick elevationCamera [(roofMesh, 5), (guideCollider, 8)] = Some (guideCollider, 8)"
  by (simp_all add: pick_def pickWithRay_def exampleRay_def priorityPredicate_def
      fallbackPredicate_def cornerHandleMesh_def roofMesh_def guideCollider_def
      MASK_PLAN_def MASK_ISO_def MASK_ELEVATION_def)

subsection \<open>Rotating\<close>

lemma cos_nonpos_upper: "pi / 2 \<le> \<theta> \<Longrightarrow> \<theta> \<le> pi \<Longrightarrow> cos \<theta> \<le> 0"
  using cos_ge_zero [of "\<theta> - pi"] cos_periodic_pi [of "\<theta> - pi"] by simp

lemma cos_nonpos_lower: "- pi \<le> \<theta> \<Longrightarrow> \<theta> \<le> - (pi / 2) \<Longrightarrow> cos \<theta> \<le> 0"
  using cos_ge_zero [of "\<theta> + pi"] cos_periodic_pi [of \<theta>] by simp

lemma sin_neg_lower: "- pi < \<theta> \<Longrightarrow> \<theta> < 0 \<Longrightarrow> sin \<theta> < 0"
  using sin_gt_zero [of "- \<theta>"] by simp

text \<open>
  \<open>atan2\<close> recovers the angle of a point given in polar form, the angle measured from
  the second argument's axis: the definition above is the angle function meant.
\<close>

lemma atan2_polar:
  assumes \<rho>: "0 < \<rho>" and lo: "- pi < \<theta>" and hi: "\<theta> \<le> pi"
  shows "atan2 (\<rho> * sin \<theta>) (\<rho> * cos \<theta>) = \<theta>"
proof -
  have q: "\<rho> \<noteq> 0"
    using \<rho> by simp
  consider (right) "0 < cos \<theta>" | (upper_left) "cos \<theta> < 0" "0 \<le> sin \<theta>"
    | (lower_left) "cos \<theta> < 0" "sin \<theta> < 0" | (axis) "cos \<theta> = 0"
    by linarith
  then show ?thesis
  proof cases
    case right
    have "- (pi / 2) < \<theta>" "\<theta> < pi / 2"
      using right cos_nonpos_upper [of \<theta>] cos_nonpos_lower [of \<theta>] lo hi by linarith+
    then have "arctan (sin \<theta> / cos \<theta>) = \<theta>"
      using arctan_tan [of \<theta>] by (simp add: tan_def)
    moreover have "0 < \<rho> * cos \<theta>"
      using \<rho> right by simp
    ultimately show ?thesis
      by (simp add: atan2_def q)
  next
    case upper_left
    have "pi / 2 < \<theta>"
    proof (rule ccontr)
      assume "\<not> pi / 2 < \<theta>"
      then have "\<theta> \<le> pi / 2" by simp
      show False
      proof (cases "- (pi / 2) \<le> \<theta>")
        case True
        then show False using cos_ge_zero [of \<theta>] \<open>\<theta> \<le> pi / 2\<close> upper_left(1) by simp
      next
        case False
        then have "sin \<theta> < 0" using sin_neg_lower [of \<theta>] lo pi_gt_zero by linarith
        then show False using upper_left(2) by simp
      qed
    qed
    then have "arctan (tan (\<theta> - pi)) = \<theta> - pi"
      using hi by (intro arctan_tan) simp_all
    moreover have "tan (\<theta> - pi) = sin \<theta> / cos \<theta>"
      using tan_periodic_pi [of "\<theta> - pi"] by (simp add: tan_def)
    moreover have "\<rho> * cos \<theta> < 0" "0 \<le> \<rho> * sin \<theta>"
      using \<rho> upper_left by (simp_all add: mult_pos_neg)
    ultimately show ?thesis
      by (simp add: atan2_def q)
  next
    case lower_left
    have "\<theta> < - (pi / 2)"
    proof (rule ccontr)
      assume "\<not> \<theta> < - (pi / 2)"
      then have a: "- (pi / 2) \<le> \<theta>" by simp
      show False
      proof (cases "\<theta> \<le> pi / 2")
        case True
        then show False using cos_ge_zero [of \<theta>] a lower_left(1) by simp
      next
        case False
        then have "0 \<le> sin \<theta>" using sin_ge_zero [of \<theta>] hi pi_gt_zero by linarith
        then show False using lower_left(2) by simp
      qed
    qed
    then have "arctan (tan (\<theta> + pi)) = \<theta> + pi"
      using lo by (intro arctan_tan) simp_all
    moreover have "tan (\<theta> + pi) = sin \<theta> / cos \<theta>"
      using tan_periodic_pi [of \<theta>] by (simp only: tan_def)
    moreover have "\<rho> * cos \<theta> < 0" "\<not> 0 \<le> \<rho> * sin \<theta>"
      using \<rho> lower_left by (simp_all add: mult_pos_neg not_le)
    ultimately show ?thesis
      by (simp add: atan2_def q)
  next
    case axis
    have "\<theta> = pi / 2 \<or> \<theta> = - (pi / 2)"
    proof (cases "0 \<le> \<theta>")
      case True
      then have "\<theta> = pi / 2"
        using cos_inj_pi [of \<theta> "pi / 2"] hi axis by simp
      then show ?thesis by simp
    next
      case False
      then have "- \<theta> = pi / 2"
        using cos_inj_pi [of "- \<theta>" "pi / 2"] lo axis by simp
      then show ?thesis by simp
    qed
    moreover have "atan2 (\<rho> * sin (pi / 2)) (\<rho> * cos (pi / 2)) = pi / 2"
      using \<rho> by (simp add: atan2_def)
    moreover have "atan2 (\<rho> * sin (- (pi / 2))) (\<rho> * cos (- (pi / 2))) = - (pi / 2)"
      using \<rho> by (simp add: atan2_def)
    ultimately show ?thesis
      by metis
  qed
qed

text \<open>
  Claim C9. While the rotate handle is dragged, a move sets the yaw of the selected
  building to \<open>atan2 dx dz\<close>, where \<open>(dx, dz)\<close> leads from the position of the building
  to the drag point (the hit point, plus the drag origin when one is recorded). The yaw before the move has no
  part in it: two controllers that differ in that yaw alone end with the same yaw.
\<close>

theorem rotate_drag_is_absolute:
  assumes target: "dragTarget s = Some t"
    and kind: "draggingHandleType s = Some rotate_handle"
    and sel: "selectedMesh s = Some r"
  shows "rotation_y (heap (dragMove (Some hit) s) r)
           = atan2 (vx (case dragOrigin s of None \<Rightarrow> hit | Some off \<Rightarrow> add hit off)
                      - vx (position (heap s r)))
                   (vz (case dragOrigin s of None \<Rightarrow> hit | Some off \<Rightarrow> add hit off)
                      - vz (position (heap s r)))
       \<and> (\<forall>yaw1 yaw2.
            rotation_y (heap (dragMove (Some hit)
                (s\<lparr>heap := (heap s)(r := (heap s r)\<lparr>rotation_y := yaw1\<rparr>)\<rparr>)) r)
          = rotation_y (heap (dragMove (Some hit)
                (s\<lparr>heap := (heap s)(r := (heap s r)\<lparr>rotation_y := yaw2\<rparr>)\<rparr>)) r))"
  using assms by (simp add: dragMove_def Let_def split: option.splits)

theorem rotate_drag_is_absolute_witness:
  "dragTarget rotating = Some \<lparr>handleType = rotate_handle, index = Some 0\<rparr>
   \<and> draggingHandleType rotating = Some rotate_handle
   \<and> selectedMesh rotating = Some 0
   \<and> dragOrigin rotating = Some Zero
   \<and> rotation_y (heap (dragMove (Some \<lparr>vx = 1, vy = 0, vz = 0\<rparr>) rotating) 0) = pi / 2
   \<and> rotation_y (heap (dragMove (Some \<lparr>vx = 1, vy = 0, vz = 0\<rparr>)
        (rotating\<lparr>heap := (heap rotating)(0 := (heap rotating 0)\<lparr>rotation_y := 3\<rparr>)\<rparr>)) 0)
     = rotation_y (heap (dragMove (Some \<lparr>vx = 1, vy = 0, vz = 0\<rparr>)
        (rotating\<lparr>heap := (heap rotating)(0 := (heap rotating 0)\<lparr>rotation_y := - 1\<rparr>)\<rparr>)) 0)"
proof -
  have target: "dragTarget rotating = Some \<lparr>handleType = rotate_handle, index = Some 0\<rparr>"
    and kind: "draggingHandleType rotating = Some rotate_handle"
    and sel: "selectedMesh rotating = Some 0"
    and origin: "dragOrigin rotating = Some Zero"
    by (simp_all add: rotating_def withSelected_def)
  have pos: "position (heap rotating 0) = Zero"
    by (simp add: rotating_def withSelected_def newBuilding_def Zero_def)
  note t = rotate_drag_is_absolute [OF target kind sel, of "\<lparr>vx = 1, vy = 0, vz = 0\<rparr>"]
  from t
  have a: "rotation_y (heap (dragMove (Some \<lparr>vx = 1, vy = 0, vz = 0\<rparr>) rotating) 0) = pi / 2"
    by (simp add: pos origin add_def Zero_def atan2_def)
  from t
  have b: "rotation_y (heap (dragMove (Some \<lparr>vx = 1, vy = 0, vz = 0\<rparr>)
        (rotating\<lparr>heap := (heap rotating)(0 := (heap rotating 0)\<lparr>rotation_y := 3\<rparr>)\<rparr>)) 0)
     = rotation_y (heap (dragMove (Some \<lparr>vx = 1, vy = 0, vz = 0\<rparr>)
        (rotating\<lparr>heap := (heap rotating)(0 := (heap rotating 0)\<lparr>rotation_y := - 1\<rparr>)\<rparr>)) 0)"
    by blast
  show ?thesis
    using a b target kind sel origin by blast
qed

end
